theory Spec2Isabelle
  imports Main
begin

section \<open>JavaScript strings and truthiness\<close>

text \<open>
  A JavaScript string is modelled as a \<open>string\<close> (its UTF-8 bytes). The two patterns the
  code searches for, \<open>v2:\<close> and \<open>localhost\<close>, are ASCII, so a prefix or substring
  test on the bytes agrees with the test on UTF-16 code units.
\<close>

fun startsWith :: "string \<Rightarrow> string \<Rightarrow> bool" where
  "startsWith s [] = True"
| "startsWith [] (p # ps) = False"
| "startsWith (c # cs) (p # ps) = (c = p \<and> startsWith cs ps)"

text \<open>
  \<open>s.indexOf(pat)\<close>: the first position at which \<open>pat\<close> occurs in \<open>s\<close>, or \<open>-1\<close>.
  \<open>indexOfFrom\<close> carries the position reached so far.
\<close>

fun indexOfFrom :: "string \<Rightarrow> string \<Rightarrow> int \<Rightarrow> int" where
  "indexOfFrom [] pat i = (if pat = [] then i else - 1)"
| "indexOfFrom (c # cs) pat i =
     (if startsWith (c # cs) pat then i else indexOfFrom cs pat (i + 1))"

definition indexOf :: "string \<Rightarrow> string \<Rightarrow> int" where
  "indexOf s pat = indexOfFrom s pat 0"

text \<open>
  An environment variable is \<open>undefined\<close> (\<open>None\<close>) or a string. \<open>if (url)\<close> and
  \<open>!!x\<close> test truthiness: \<open>undefined\<close>, \<open>null\<close> and the empty string are falsy.
\<close>

definition truthy :: "string option \<Rightarrow> bool" where
  "truthy u = (case u of None \<Rightarrow> False | Some s \<Rightarrow> s \<noteq> [])"

section \<open>src/model/db.ts: configuration and driver instances\<close>

datatype StoreType = Pg | PgDeprecated | Local

text \<open>
  \<open>storeUrlForType\<close>: \<open>Pg\<close> is read from \<open>DATABASE_URL_SUPABASE\<close>, \<open>PgDeprecated\<close>
  from \<open>DATABASE_URL_HEROKU\<close>, \<open>Local\<close> from \<open>DB_PATH\<close>. It is read once and never
  written, so it is a parameter of every function below.
\<close>

type_synonym config = "StoreType \<Rightarrow> string option"

text \<open>
  The statement at module load (lines 15 to 18): when no value of \<open>storeUrlForType\<close> is
  truthy the process exits with status \<open>-1\<close>.
\<close>

datatype startup = Running | Exited int

definition moduleInit :: "config \<Rightarrow> startup" where
  "moduleInit storeUrlForType =
     (if length (filter truthy (map storeUrlForType [Pg, PgDeprecated, Local])) = 0
      then Exited (- 1) else Running)"

text \<open>
  Errors as values. \<open>NoBackendConfigured\<close> is the
  \<open>Error("Unable to instantiate DB instance.")\<close> thrown by the router; \<open>DuplicateKey\<close> is
  the primary-key violation of an \<open>INSERT\<close>; \<open>NoSuchTable\<close> and \<open>BackendUnavailable\<close> are
  the other failures of a query; \<open>SyntaxError\<close> is thrown by \<open>JSON.parse\<close>.
\<close>

datatype error = NoBackendConfigured | DuplicateKey | BackendUnavailable | NoSuchTable | SyntaxError

text \<open>
  The two classes implementing \<open>IDb\<close>. A \<open>PgDb\<close> holds its connection string and whether
  the pool configuration it built has the \<open>ssl\<close> entry; a \<open>SqliteDb\<close> holds the path of
  its database file.
\<close>

datatype IDb = PgDb (pgUrl: string) (ssl: bool) | SqliteDb (dbPath: string)

text \<open>
  \<open>PgDb.constructor\<close> (lines 80 to 93): \<open>config.ssl\<close> is set exactly when
  \<open>pgUrl.indexOf("localhost") === -1\<close>.
\<close>

definition new_PgDb :: "string \<Rightarrow> IDb" where
  "new_PgDb url = PgDb url (indexOf url ''localhost'' = - 1)"

text \<open>
  \<open>SqliteDb.constructor\<close> (lines 150 to 156). Creating the folder of \<open>dbPath\<close> is an
  effect on the file system, which is outside the state modelled here.
\<close>

definition new_SqliteDb :: "string \<Rightarrow> IDb" where
  "new_SqliteDb path = SqliteDb path"

section \<open>The database engines\<close>

text \<open>
  The statements the drivers send, all against the table
  \<open>games(game_id varchar PRIMARY KEY, game text, created_time)\<close>. A row is its
  \<open>game_id\<close> and its \<open>game\<close> column, which is nullable; \<open>created_time\<close> is never read.
\<close>

datatype stmt =
    CreateTableIfNotExists
  | InsertGame string string
  | UpdateGame string string
  | SelectGameId string
  | SelectGame string

record engine =
  reachable :: bool
  tableExists :: bool
  games :: "(string \<times> string option) list"
  issued :: "stmt list"

text \<open>
  The effect of a statement on the table, once the engine is reached and the table exists.
  The result is the list of rows of the one selected column.
\<close>

fun onTable :: "stmt \<Rightarrow> (string \<times> string option) list
    \<Rightarrow> error + (string option list \<times> (string \<times> string option) list)" where
  "onTable CreateTableIfNotExists rows = Inr ([], rows)"
| "onTable (InsertGame k v) rows =
     (if k \<in> set (map fst rows) then Inl DuplicateKey else Inr ([], rows @ [(k, Some v)]))"
| "onTable (UpdateGame k v) rows =
     Inr ([], map (\<lambda>r. if fst r = k then (fst r, Some v) else r) rows)"
| "onTable (SelectGameId k) rows = Inr (map (\<lambda>r. Some (fst r)) (filter (\<lambda>r. fst r = k) rows), rows)"
| "onTable (SelectGame k) rows = Inr (map snd (filter (\<lambda>r. fst r = k) rows), rows)"

text \<open>
  Running a statement: it is recorded as issued; an unreachable engine answers with
  \<open>BackendUnavailable\<close>; \<open>CREATE TABLE IF NOT EXISTS\<close> makes the table exist; every other
  statement needs the table.
\<close>

definition exec :: "stmt \<Rightarrow> engine \<Rightarrow> (error + string option list) \<times> engine" where
  "exec q e =
     (let e1 = e\<lparr>issued := issued e @ [q]\<rparr> in
      if \<not> reachable e then (Inl BackendUnavailable, e1)
      else if q = CreateTableIfNotExists then (Inr [], e1\<lparr>tableExists := True\<rparr>)
      else if \<not> tableExists e then (Inl NoSuchTable, e1)
      else (case onTable q (games e) of
              Inl err \<Rightarrow> (Inl err, e1)
            | Inr (res, rows') \<Rightarrow> (Inr res, e1\<lparr>games := rows'\<rparr>)))"

text \<open>
  An asynchronous function is a function of the state it works on that returns its result, or
  the error it rejects with, and the state it leaves. \<open>andThen\<close> is \<open>await\<close> followed by
  the rest of the body: a rejection ends the body.
\<close>

definition andThen :: "('s \<Rightarrow> (error + 'a) \<times> 's) \<Rightarrow> ('a \<Rightarrow> 's \<Rightarrow> (error + 'b) \<times> 's)
    \<Rightarrow> 's \<Rightarrow> (error + 'b) \<times> 's" where
  "andThen m f w = (case m w of (Inl err, w1) \<Rightarrow> (Inl err, w1) | (Inr x, w1) \<Rightarrow> f x w1)"

definition resolve :: "'a \<Rightarrow> 's \<Rightarrow> (error + 'a) \<times> 's" where
  "resolve x w = (Inr x, w)"

text \<open>
  A method of a driver works on the engine behind its pool or its database handle.
\<close>

type_synonym 'a dbio = "engine \<Rightarrow> (error + 'a) \<times> engine"

text \<open>
  The state a request runs in: the module's \<open>_instanceCache\<close> and the engine behind each
  endpoint. Two driver instances with the same endpoint share one engine. \<open>onEngine\<close> runs
  a method of an instance on its engine.
\<close>

datatype endpoint = PgServer string | SqliteFile string

fun endpointOf :: "IDb \<Rightarrow> endpoint" where
  "endpointOf (PgDb url s) = PgServer url"
| "endpointOf (SqliteDb path) = SqliteFile path"

record world =
  instanceCache :: "StoreType \<Rightarrow> IDb option"
  engines :: "endpoint \<Rightarrow> engine"

type_synonym 'a io = "world \<Rightarrow> (error + 'a) \<times> world"

definition engineOf :: "IDb \<Rightarrow> world \<Rightarrow> engine" where
  "engineOf db w = engines w (endpointOf db)"

definition setEngine :: "IDb \<Rightarrow> engine \<Rightarrow> world \<Rightarrow> world" where
  "setEngine db e w = w\<lparr>engines := (engines w)(endpointOf db := e)\<rparr>"

definition onEngine :: "IDb \<Rightarrow> 'a dbio \<Rightarrow> 'a io" where
  "onEngine db m w = (case m (engineOf db w) of (r, e1) \<Rightarrow> (r, setEngine db e1 w))"

section \<open>The router\<close>

text \<open>\<open>getOrCreateDbInstance\<close> (lines 25 to 49).\<close>

definition getOrCreateDbInstance :: "config \<Rightarrow> StoreType \<Rightarrow> IDb io" where
  "getOrCreateDbInstance storeUrlForType storeType w =
     (let w1 =
        (if instanceCache w storeType = None then
           (case storeType of
              Local \<Rightarrow>
                (case storeUrlForType storeType of
                   Some url \<Rightarrow>
                     if url \<noteq> [] then w\<lparr>instanceCache := (instanceCache w)(storeType \<mapsto> new_SqliteDb url)\<rparr>
                     else w
                 | None \<Rightarrow> w)
            | _ \<Rightarrow>
                (case storeUrlForType storeType of
                   Some url \<Rightarrow>
                     if url \<noteq> [] then w\<lparr>instanceCache := (instanceCache w)(storeType \<mapsto> new_PgDb url)\<rparr>
                     else w
                 | None \<Rightarrow> w))
         else w)
      in case instanceCache w1 storeType of
           None \<Rightarrow> (Inl NoBackendConfigured, w1)
         | Some instance \<Rightarrow> (Inr instance, w1))"

text \<open>\<open>getDbInstance\<close> (lines 51 to 59): the loop over \<open>preferredOrder\<close>.\<close>

fun getDbInstance :: "config \<Rightarrow> StoreType list \<Rightarrow> IDb io" where
  "getDbInstance storeUrlForType [] w = (Inl NoBackendConfigured, w)"
| "getDbInstance storeUrlForType (storeType # rest) w =
     (if truthy (storeUrlForType storeType) then getOrCreateDbInstance storeUrlForType storeType w
      else getDbInstance storeUrlForType rest w)"

text \<open>\<open>getDbForGameId\<close> (lines 61 to 65).\<close>

definition getDbForGameId :: "config \<Rightarrow> string \<Rightarrow> IDb io" where
  "getDbForGameId storeUrlForType gameId =
     (if startsWith gameId ''v2:'' then getDbInstance storeUrlForType [Pg, Local]
      else getDbInstance storeUrlForType [PgDeprecated, Local])"

section \<open>JSON\<close>

text \<open>
  \<open>GameJSON\<close> is declared in \<open>jsonTypes\<close>, and \<open>JSON.stringify\<close> and \<open>JSON.parse\<close>
  belong to the platform, so the values of type \<open>GameJSON\<close> are a type parameter \<open>'j\<close>
  and the two functions on them are a parameter of the model. \<open>parseText\<close> reads a non-empty
  text: it is not JSON, it is the JSON text \<open>null\<close>, or it is a value.
\<close>

datatype 'j parsed = Invalid | Null | Value 'j

record 'j json =
  stringify :: "'j \<Rightarrow> string"
  parseText :: "string \<Rightarrow> 'j parsed"

text \<open>
  \<open>JSON.parse(x)\<close> for \<open>x\<close> a string or \<open>null\<close>. The argument \<open>null\<close> is converted to
  the text \<open>null\<close>, which parses to \<open>null\<close>; the empty text is not JSON, so
  \<open>JSON.parse("")\<close> throws a \<open>SyntaxError\<close>. The result \<open>None\<close> is \<open>null\<close>.
\<close>

definition JSON_parse :: "'j json \<Rightarrow> string option \<Rightarrow> error + 'j option" where
  "JSON_parse codec x =
     (case x of
        None \<Rightarrow> Inr None
      | Some s \<Rightarrow>
          if s = [] then Inl SyntaxError
          else (case parseText codec s of
                  Invalid \<Rightarrow> Inl SyntaxError
                | Null \<Rightarrow> Inr None
                | Value v \<Rightarrow> Inr (Some v)))"

section \<open>The networked-relational driver, class PgDb\<close>

text \<open>Every method sends its statement with \<open>this.pool.query\<close>.\<close>

definition PgDb_createGamesTableIfNotExists :: "unit dbio" where
  "PgDb_createGamesTableIfNotExists =
     andThen (exec CreateTableIfNotExists) (\<lambda>result. resolve ())"

definition PgDb_createGame :: "string \<Rightarrow> string \<Rightarrow> unit dbio" where
  "PgDb_createGame gameId gameJSON =
     andThen (exec (InsertGame gameId gameJSON)) (\<lambda>result. resolve ())"

definition PgDb_updateGame :: "string \<Rightarrow> string \<Rightarrow> unit dbio" where
  "PgDb_updateGame gameId gameJSON =
     andThen (exec (UpdateGame gameId gameJSON)) (\<lambda>result. resolve ())"

text \<open>\<open>result.rows.length === 1\<close> (lines 130 to 136).\<close>

definition PgDb_hasSavedGame :: "string \<Rightarrow> bool dbio" where
  "PgDb_hasSavedGame gameId =
     andThen (exec (SelectGameId gameId)) (\<lambda>rows. resolve (length rows = 1))"

definition PgDb_saveGame :: "string \<Rightarrow> string \<Rightarrow> unit dbio" where
  "PgDb_saveGame gameId gameJSON =
     andThen (PgDb_hasSavedGame gameId) (\<lambda>hasSavedGame.
       if hasSavedGame then PgDb_updateGame gameId gameJSON
       else PgDb_createGame gameId gameJSON)"

text \<open>
  \<open>result.rows.length === 1 ? JSON.parse(result.rows[0].game) : null\<close> (lines 138 to 144).
\<close>

definition PgDb_getGameJSONById :: "'j json \<Rightarrow> string \<Rightarrow> ('j option) dbio" where
  "PgDb_getGameJSONById codec gameId =
     andThen (exec (SelectGame gameId)) (\<lambda>rows.
       (case rows of
          [game] \<Rightarrow> (\<lambda>e. (JSON_parse codec game, e))
        | _ \<Rightarrow> resolve None))"

section \<open>The embedded-file driver, class SqliteDb\<close>

text \<open>
  Every method sends its statement with \<open>this.db.run\<close> or \<open>this.db.get\<close> and rejects with
  the error of the callback. \<open>db.get\<close> hands the callback the first row of the result, or
  \<open>undefined\<close>; \<open>row?.column\<close> is then the column of that row, or \<open>undefined\<close>. \<open>None\<close>
  stands for both \<open>undefined\<close> and a \<open>NULL\<close> column: the code only tests the value for
  truthiness.
\<close>

fun firstRowColumn :: "string option list \<Rightarrow> string option" where
  "firstRowColumn [] = None"
| "firstRowColumn (column # rest) = column"

definition SqliteDb_createGamesTableIfNotExists :: "unit dbio" where
  "SqliteDb_createGamesTableIfNotExists =
     andThen (exec CreateTableIfNotExists) (\<lambda>result. resolve ())"

definition SqliteDb_updateGame :: "string \<Rightarrow> string \<Rightarrow> unit dbio" where
  "SqliteDb_updateGame gameId gameJSON =
     andThen (exec (UpdateGame gameId gameJSON)) (\<lambda>result. resolve ())"

definition SqliteDb_createGame :: "string \<Rightarrow> string \<Rightarrow> unit dbio" where
  "SqliteDb_createGame gameId gameJSON =
     andThen (exec (InsertGame gameId gameJSON)) (\<lambda>result. resolve ())"

text \<open>\<open>row?.game_id\<close> is tested for truthiness (lines 220 to 236).\<close>

definition SqliteDb_hasSavedGame :: "string \<Rightarrow> bool dbio" where
  "SqliteDb_hasSavedGame gameId =
     andThen (exec (SelectGameId gameId)) (\<lambda>rows.
       if truthy (firstRowColumn rows) then resolve True else resolve False)"

definition SqliteDb_saveGame :: "string \<Rightarrow> string \<Rightarrow> unit dbio" where
  "SqliteDb_saveGame gameId gameJSON =
     andThen (SqliteDb_hasSavedGame gameId) (\<lambda>hasSavedGame.
       if hasSavedGame then SqliteDb_updateGame gameId gameJSON
       else SqliteDb_createGame gameId gameJSON)"

text \<open>\<open>row?.game\<close> is tested for truthiness (lines 238 to 254).\<close>

definition SqliteDb_getGameJSONById :: "'j json \<Rightarrow> string \<Rightarrow> ('j option) dbio" where
  "SqliteDb_getGameJSONById codec gameId =
     andThen (exec (SelectGame gameId)) (\<lambda>rows.
       if truthy (firstRowColumn rows) then (\<lambda>e. (JSON_parse codec (firstRowColumn rows), e))
       else resolve None)"

section \<open>Dispatch on the instance, and the exported functions\<close>

definition IDb_createGamesTableIfNotExists :: "IDb \<Rightarrow> unit dbio" where
  "IDb_createGamesTableIfNotExists db =
     (case db of
        PgDb url s \<Rightarrow> PgDb_createGamesTableIfNotExists
      | SqliteDb path \<Rightarrow> SqliteDb_createGamesTableIfNotExists)"

definition IDb_hasSavedGame :: "IDb \<Rightarrow> string \<Rightarrow> bool dbio" where
  "IDb_hasSavedGame db gameId =
     (case db of
        PgDb url s \<Rightarrow> PgDb_hasSavedGame gameId
      | SqliteDb path \<Rightarrow> SqliteDb_hasSavedGame gameId)"

definition IDb_saveGame :: "IDb \<Rightarrow> string \<Rightarrow> string \<Rightarrow> unit dbio" where
  "IDb_saveGame db gameId gameJSON =
     (case db of
        PgDb url s \<Rightarrow> PgDb_saveGame gameId gameJSON
      | SqliteDb path \<Rightarrow> SqliteDb_saveGame gameId gameJSON)"

definition IDb_getGameJSONById :: "'j json \<Rightarrow> IDb \<Rightarrow> string \<Rightarrow> ('j option) dbio" where
  "IDb_getGameJSONById codec db gameId =
     (case db of
        PgDb url s \<Rightarrow> PgDb_getGameJSONById codec gameId
      | SqliteDb path \<Rightarrow> SqliteDb_getGameJSONById codec gameId)"

text \<open>\<open>getGameJSONById\<close> (lines 257 to 263) and \<open>saveGameJSONById\<close> (lines 265 to 272).\<close>

definition getGameJSONById :: "'j json \<Rightarrow> config \<Rightarrow> string \<Rightarrow> ('j option) io" where
  "getGameJSONById codec storeUrlForType gameId =
     andThen (getDbForGameId storeUrlForType gameId) (\<lambda>db.
       andThen (onEngine db (IDb_createGamesTableIfNotExists db)) (\<lambda>u.
         onEngine db (IDb_getGameJSONById codec db gameId)))"

definition saveGameJSONById :: "'j json \<Rightarrow> config \<Rightarrow> string \<Rightarrow> 'j \<Rightarrow> unit io" where
  "saveGameJSONById codec storeUrlForType gameId gameJSON =
     andThen (getDbForGameId storeUrlForType gameId) (\<lambda>db.
       andThen (onEngine db (IDb_createGamesTableIfNotExists db)) (\<lambda>u.
         onEngine db (IDb_saveGame db gameId (stringify codec gameJSON))))"

section \<open>src/components/GameUpdater.tsx\<close>

text \<open>
  What the browser offers. \<open>requestPermission\<close> tells, for each way of calling
  \<open>Notification.requestPermission\<close>, whether the call returns a promise, returns
  \<open>undefined\<close> (the older callback-only interface) or throws.
\<close>

datatype permission = Granted | Denied | Default

datatype callForm = NoArgument | WithCallback

datatype requestResult = ReturnsPromise | ReturnsUndefined | Throws

datatype exn = TypeError | RequestPermissionThrew

record platform =
  hasNotification :: bool
  hasWindow :: bool
  notificationInWindow :: bool
  permission :: permission
  requestPermission :: "callForm \<Rightarrow> requestResult"
  constructorThrows :: bool

text \<open>The constant \<open>isNotificationsSupported\<close> (lines 11 to 14).\<close>

definition isNotificationsSupported :: "platform \<Rightarrow> bool" where
  "isNotificationsSupported pf = (hasNotification pf \<and> hasWindow pf \<and> notificationInWindow pf)"

record props =
  gameId :: string
  activePlayerId :: string
  isGameOver :: bool
  playerId :: "string option"
  playerSecret :: "string option"
  gameStateId :: int

text \<open>
  The state of one mounted component: the ref \<open>isFirstLoadRef\<close>; the dependencies
  \<open>[isGameOver, activePlayerId]\<close> of the last run of the effect; the \<open>timer\<close> variable
  captured by the cleanup function that run returned, if it returned one; the intervals
  that are set and not cleared; and counters of what the component has done: calls of
  \<open>Notification.requestPermission\<close>, entries into the \<open>try\<close> statement of lines 89 to 101,
  notifications constructed, and calls of \<open>fetch\<close> made by \<open>updateGameState\<close> when an
  interval fires. \<open>raised\<close> is the exception an effect let escape.
\<close>

record updater =
  isFirstLoadRef :: bool
  lastDeps :: "(bool \<times> string) option"
  cleanup :: "nat option option"
  liveTimers :: "nat list"
  nextTimerId :: nat
  permissionRequests :: nat
  notifyAttempts :: nat
  notificationsShown :: nat
  fetches :: nat
  raised :: "exn option"
  mounted :: bool

definition initialUpdater :: updater where
  "initialUpdater =
     \<lparr>isFirstLoadRef = True, lastDeps = None, cleanup = None, liveTimers = [], nextTimerId = 0,
      permissionRequests = 0, notifyAttempts = 0, notificationsShown = 0, fetches = 0,
      raised = None, mounted = True\<rparr>"

text \<open>
  \<open>checkNotificationPromise\<close> (lines 16 to 23): \<open>Notification.requestPermission().then()\<close>
  inside \<open>try\<close>. The call throwing, or \<open>.then\<close> on \<open>undefined\<close> throwing, is caught.
\<close>

definition checkNotificationPromise :: "platform \<Rightarrow> updater \<Rightarrow> bool \<times> updater" where
  "checkNotificationPromise pf s =
     (let s1 = s\<lparr>permissionRequests := permissionRequests s + 1\<rparr> in
      case requestPermission pf NoArgument of
        ReturnsPromise \<Rightarrow> (True, s1)
      | ReturnsUndefined \<Rightarrow> (False, s1)
      | Throws \<Rightarrow> (False, s1))"

text \<open>\<open>enableNotifications\<close> (lines 25 to 36). Neither call of its \<open>else\<close> branch is in a \<open>try\<close>.\<close>

definition enableNotifications :: "platform \<Rightarrow> updater \<Rightarrow> (exn + unit) \<times> updater" where
  "enableNotifications pf s =
     (if \<not> isNotificationsSupported pf then (Inr (), s)
      else
        (case checkNotificationPromise pf s of
           (True, s1) \<Rightarrow>
             (let s2 = s1\<lparr>permissionRequests := permissionRequests s1 + 1\<rparr> in
              case requestPermission pf NoArgument of
                ReturnsPromise \<Rightarrow> (Inr (), s2)
              | ReturnsUndefined \<Rightarrow> (Inl TypeError, s2)
              | Throws \<Rightarrow> (Inl RequestPermissionThrew, s2))
         | (False, s1) \<Rightarrow>
             (let s2 = s1\<lparr>permissionRequests := permissionRequests s1 + 1\<rparr> in
              case requestPermission pf WithCallback of
                Throws \<Rightarrow> (Inl RequestPermissionThrew, s2)
              | _ \<Rightarrow> (Inr (), s2))))"

text \<open>
  The \<open>try\<close> statement of lines 89 to 101: a notification is constructed when notifications
  are supported and the permission is \<open>granted\<close>; the constructor throwing is caught.
\<close>

definition notifyTurn :: "platform \<Rightarrow> updater \<Rightarrow> updater" where
  "notifyTurn pf s =
     (let s1 = s\<lparr>notifyAttempts := notifyAttempts s + 1\<rparr> in
      if isNotificationsSupported pf \<and> permission pf = Granted then
        (if constructorThrows pf then s1
         else s1\<lparr>notificationsShown := notificationsShown s1 + 1\<rparr>)
      else s1)"

text \<open>
  The body of the effect (lines 80 to 107). It returns the value of its variable \<open>timer\<close>,
  which the cleanup function it returns will clear; \<open>setInterval\<close> returns a fresh handle.
\<close>

definition effect :: "platform \<Rightarrow> props \<Rightarrow> updater \<Rightarrow> (exn + nat option) \<times> updater" where
  "effect pf p s =
     (case enableNotifications pf s of
        (Inl e, s1) \<Rightarrow> (Inl e, s1)
      | (Inr u, s1) \<Rightarrow>
          (let isActivePlayer = (Some (activePlayerId p) = playerId p) in
           if \<not> isGameOver p \<and> \<not> isActivePlayer then
             (Inr (Some (nextTimerId s1)),
              s1\<lparr>liveTimers := nextTimerId s1 # liveTimers s1,
                 nextTimerId := nextTimerId s1 + 1,
                 isFirstLoadRef := False\<rparr>)
           else if isActivePlayer \<and> \<not> isFirstLoadRef s1 then
             (Inr None, (notifyTurn pf s1)\<lparr>isFirstLoadRef := False\<rparr>)
           else (Inr None, s1\<lparr>isFirstLoadRef := False\<rparr>)))"

text \<open>The cleanup function, \<open>clearInterval(timer)\<close>; \<open>clearInterval(null)\<close> does nothing.\<close>

definition runCleanup :: "updater \<Rightarrow> updater" where
  "runCleanup s =
     (case cleanup s of
        Some (Some t) \<Rightarrow> s\<lparr>liveTimers := removeAll t (liveTimers s), cleanup := None\<rparr>
      | _ \<Rightarrow> s\<lparr>cleanup := None\<rparr>)"

text \<open>
  \<open>updateGameState\<close> (lines 61 to 78) calls \<open>fetch\<close> once; what comes back only reaches
  the parent's \<open>onUpdate\<close>. When five seconds have passed every live interval calls it.
\<close>

definition updateGameState :: "updater \<Rightarrow> updater" where
  "updateGameState s = s\<lparr>fetches := fetches s + 1\<rparr>"

definition fireIntervals :: "updater \<Rightarrow> updater" where
  "fireIntervals s = foldr (\<lambda>t. updateGameState) (liveTimers s) s"

text \<open>
  What happens to a mounted component: it is rendered with some props (the first render
  mounts it), five seconds pass, or it is unmounted. After a render the effect runs when
  it has not run yet or a dependency changed, after the cleanup of its last run. An
  exception escaping the effect takes the component down; an interval that was not cleared
  goes on firing.
\<close>

datatype lifecycle = Render props | Tick | Unmount

definition step :: "platform \<Rightarrow> updater \<Rightarrow> lifecycle \<Rightarrow> updater" where
  "step pf s ev =
     (if \<not> mounted s \<or> raised s \<noteq> None then
        (case ev of Tick \<Rightarrow> fireIntervals s | _ \<Rightarrow> s)
      else
        (case ev of
           Render p \<Rightarrow>
             if lastDeps s = Some (isGameOver p, activePlayerId p) then s
             else
               (case effect pf p (runCleanup s) of
                  (Inl e, s1) \<Rightarrow>
                    s1\<lparr>raised := Some e, lastDeps := Some (isGameOver p, activePlayerId p)\<rparr>
                | (Inr t, s1) \<Rightarrow>
                    s1\<lparr>cleanup := Some t, lastDeps := Some (isGameOver p, activePlayerId p)\<rparr>)
         | Tick \<Rightarrow> fireIntervals s
         | Unmount \<Rightarrow> (runCleanup s)\<lparr>mounted := False\<rparr>))"

definition run :: "platform \<Rightarrow> lifecycle list \<Rightarrow> updater" where
  "run pf evs = foldl (step pf) initialUpdater evs"

section \<open>Notions used to state the properties\<close>

text \<open>
  The instance the router constructs for a store type, when its endpoint is configured, and
  the states of \<open>_instanceCache\<close> that calls of the router can produce from the empty cache:
  every entry is \<open>null\<close> or that instance.
\<close>

definition instanceFor :: "config \<Rightarrow> StoreType \<Rightarrow> IDb option" where
  "instanceFor cfg t =
     (case cfg t of
        None \<Rightarrow> None
      | Some url \<Rightarrow>
          if url = [] then None
          else Some (case t of Local \<Rightarrow> new_SqliteDb url | _ \<Rightarrow> new_PgDb url))"

definition cacheFrom :: "config \<Rightarrow> world \<Rightarrow> bool" where
  "cacheFrom cfg w =
     list_all (\<lambda>t. instanceCache w t = None \<or> instanceCache w t = instanceFor cfg t)
       [Pg, PgDeprecated, Local]"

text \<open>
  The engine after a successful \<open>CREATE TABLE IF NOT EXISTS\<close>, and the rows of the table
  with a given key.
\<close>

definition created :: "engine \<Rightarrow> engine" where
  "created e = e\<lparr>issued := issued e @ [CreateTableIfNotExists], tableExists := True\<rparr>"

definition rowsFor :: "string \<Rightarrow> engine \<Rightarrow> (string \<times> string option) list" where
  "rowsFor k e = filter (\<lambda>r. fst r = k) (games e)"

text \<open>
  A connection string as the parts it is written from, and the hosts that are loopback
  addresses: the name \<open>localhost\<close>, the IPv4 addresses \<open>127.x.y.z\<close> and the IPv6 address
  \<open>::1\<close>. This follows the words of the specification, not the constructor.
\<close>

record connection =
  user :: string
  password :: string
  host :: string
  port :: string
  database :: string

definition connectionString :: "connection \<Rightarrow> string" where
  "connectionString c =
     ''postgres://'' @ user c @ '':'' @ password c @ ''@'' @ host c @ '':'' @ port c
       @ ''/'' @ database c"

definition spec_isLoopback :: "connection \<Rightarrow> bool" where
  "spec_isLoopback c =
     (host c = ''localhost'' \<or> startsWith (host c) ''127.'' \<or> host c = ''[::1]'')"

section \<open>Concrete configurations, states and platforms\<close>

definition onlyLegacy :: config where
  "onlyLegacy t =
     (if t = PgDeprecated then Some ''postgres://u:p@legacy.example.com:5432/everdell'' else None)"

definition onlyLocal :: config where
  "onlyLocal t = (if t = Local then Some ''./db/game.sqlite3'' else None)"

definition allConfigured :: config where
  "allConfigured t =
     (case t of
        Pg \<Rightarrow> Some ''postgres://u:p@current.example.com:5432/everdell''
      | PgDeprecated \<Rightarrow> Some ''postgres://u:p@legacy.example.com:5432/everdell''
      | Local \<Rightarrow> Some ''./db/game.sqlite3'')"

definition freshEngine :: engine where
  "freshEngine = \<lparr>reachable = True, tableExists = False, games = [], issued = []\<rparr>"

definition freshWorld :: world where
  "freshWorld = \<lparr>instanceCache = (\<lambda>t. None), engines = (\<lambda>ep. freshEngine)\<rparr>"

text \<open>An engine whose table exists and is empty.\<close>

definition readyEngine :: engine where
  "readyEngine = \<lparr>reachable = True, tableExists = True, games = [], issued = []\<rparr>"

text \<open>An engine whose table holds one record, with an empty payload.\<close>

definition emptyPayloadEngine :: engine where
  "emptyPayloadEngine =
     \<lparr>reachable = True, tableExists = True, games = [(''g1'', Some [])], issued = []\<rparr>"

text \<open>The JSON values \<open>true\<close> and \<open>false\<close> with their texts.\<close>

definition boolCodec :: "bool json" where
  "boolCodec =
     \<lparr>stringify = (\<lambda>b. if b then ''true'' else ''false''),
      parseText = (\<lambda>s. if s = ''true'' then Value True
                        else if s = ''false'' then Value False
                        else if s = ''null'' then Null else Invalid)\<rparr>"

text \<open>
  The state after the payload \<open>true\<close> was saved under the empty session id, with only the
  embedded-file path configured.
\<close>

definition savedEmptyId :: world where
  "savedEmptyId = snd (saveGameJSONById boolCodec onlyLocal [] True freshWorld)"

definition loopbackByAddress :: connection where
  "loopbackByAddress =
     \<lparr>user = ''u'', password = ''p'', host = ''127.0.0.1'', port = ''5432'',
      database = ''everdell''\<rparr>"

definition remoteNamedLocalhost :: connection where
  "remoteNamedLocalhost =
     \<lparr>user = ''u'', password = ''p'', host = ''db.example.com'', port = ''5432'',
      database = ''localhost''\<rparr>"

definition modernBrowser :: platform where
  "modernBrowser =
     \<lparr>hasNotification = True, hasWindow = True, notificationInWindow = True,
      permission = Granted, requestPermission = (\<lambda>form. ReturnsPromise),
      constructorThrows = False\<rparr>"

definition throwingBrowser :: platform where
  "throwingBrowser =
     \<lparr>hasNotification = True, hasWindow = True, notificationInWindow = True,
      permission = Default, requestPermission = (\<lambda>form. Throws),
      constructorThrows = False\<rparr>"

definition waitingProps :: props where
  "waitingProps =
     \<lparr>gameId = ''v2:abc'', activePlayerId = ''P1'', isGameOver = False, playerId = Some ''P2'',
      playerSecret = Some ''s'', gameStateId = 1\<rparr>"

definition myTurnProps :: props where
  "myTurnProps =
     \<lparr>gameId = ''v2:abc'', activePlayerId = ''P2'', isGameOver = False, playerId = Some ''P2'',
      playerSecret = Some ''s'', gameStateId = 2\<rparr>"

definition gameOverProps :: props where
  "gameOverProps =
     \<lparr>gameId = ''v2:abc'', activePlayerId = ''P1'', isGameOver = True, playerId = Some ''P2'',
      playerSecret = Some ''s'', gameStateId = 3\<rparr>"

section \<open>Strings\<close>

lemma startsWith_iff: "startsWith s p \<longleftrightarrow> (\<exists>r. s = p @ r)"
  by (induction s p rule: startsWith.induct) auto

lemma indexOfFrom_absent:
  "0 \<le> i \<Longrightarrow> indexOfFrom s pat i = - 1 \<longleftrightarrow> \<not> (\<exists>pre post. s = pre @ pat @ post)"
proof (induction s arbitrary: i)
  case Nil
  then show ?case by auto
next
  case (Cons c cs)
  show ?case
  proof (cases "startsWith (c # cs) pat")
    case True
    then obtain r where "c # cs = pat @ r" by (auto simp: startsWith_iff)
    then have "c # cs = [] @ pat @ r" by simp
    then have "\<exists>pre post. c # cs = pre @ pat @ post" by blast
    with True Cons.prems show ?thesis by simp
  next
    case False
    have "(\<exists>pre post. c # cs = pre @ pat @ post) \<longleftrightarrow> (\<exists>pre post. cs = pre @ pat @ post)"
    proof
      assume "\<exists>pre post. c # cs = pre @ pat @ post"
      then obtain pre post where e: "c # cs = pre @ pat @ post" by blast
      show "\<exists>pre post. cs = pre @ pat @ post"
      proof (cases pre)
        case Nil
        with e have "startsWith (c # cs) pat" by (auto simp: startsWith_iff)
        with False show ?thesis by simp
      next
        case (Cons a pre')
        with e have "cs = pre' @ pat @ post" by simp
        then show ?thesis by blast
      qed
    next
      assume "\<exists>pre post. cs = pre @ pat @ post"
      then obtain pre post where "cs = pre @ pat @ post" by blast
      then have "c # cs = (c # pre) @ pat @ post" by simp
      then show "\<exists>pre post. c # cs = pre @ pat @ post" by blast
    qed
    moreover have "indexOfFrom cs pat (i + 1) = - 1 \<longleftrightarrow> \<not> (\<exists>pre post. cs = pre @ pat @ post)"
      using Cons.IH [of "i + 1"] Cons.prems by simp
    ultimately show ?thesis using False by simp
  qed
qed

section \<open>The TLS setting of the networked-relational driver\<close>

text \<open>
  Claim C7, as the code has it: the pool configuration of a \<open>PgDb\<close> has the \<open>ssl\<close> entry
  exactly when the connection string does not contain the text \<open>localhost\<close> anywhere.
\<close>

theorem ssl_iff_no_localhost:
  "ssl (new_PgDb url) \<longleftrightarrow> \<not> (\<exists>pre post. url = pre @ ''localhost'' @ post)"
  using indexOfFrom_absent [of 0 url "''localhost''"] by (simp add: new_PgDb_def indexOf_def)

text \<open>
  Claim C7 as stated fails in both directions: the endpoint at the loopback address
  \<open>127.0.0.1\<close> gets TLS, and the endpoint at the remote host \<open>db.example.com\<close> whose
  database is named \<open>localhost\<close> gets none.
\<close>

theorem ssl_loopback_counterexample:
  "spec_isLoopback loopbackByAddress \<and> ssl (new_PgDb (connectionString loopbackByAddress))
   \<and> \<not> spec_isLoopback remoteNamedLocalhost
   \<and> \<not> ssl (new_PgDb (connectionString remoteNamedLocalhost))"
  by (simp add: spec_isLoopback_def loopbackByAddress_def remoteNamedLocalhost_def
      connectionString_def new_PgDb_def indexOf_def)

section \<open>Routing\<close>

lemma getOrCreateDbInstance_engines:
  "engines (snd (getOrCreateDbInstance cfg t w)) = engines w"
  by (simp add: getOrCreateDbInstance_def Let_def split: StoreType.splits option.splits)

lemma getDbInstance_engines: "engines (snd (getDbInstance cfg order w)) = engines w"
  by (induction order) (simp_all add: getOrCreateDbInstance_engines)

lemma getDbForGameId_engines: "engines (snd (getDbForGameId cfg gid w)) = engines w"
  by (simp add: getDbForGameId_def getDbInstance_engines del: getDbInstance.simps)

lemma truthy_Some: "truthy u \<longleftrightarrow> (\<exists>url. u = Some url \<and> url \<noteq> [])"
  by (cases u) (simp_all add: truthy_def)

lemma getOrCreateDbInstance_cached:
  "getOrCreateDbInstance cfg t w = (Inr db, w1) \<Longrightarrow> instanceCache w1 t = Some db"
  by (auto simp: getOrCreateDbInstance_def Let_def split: StoreType.splits option.splits if_splits)

lemma getOrCreateDbInstance_again:
  "instanceCache w t = Some db \<Longrightarrow> getOrCreateDbInstance cfg t w = (Inr db, w)"
  by (simp add: getOrCreateDbInstance_def)

lemma getDbInstance_again:
  "getDbInstance cfg order w = (Inr db, w1) \<Longrightarrow> instanceCache w2 = instanceCache w1
   \<Longrightarrow> getDbInstance cfg order w2 = (Inr db, w2)"
proof (induction order)
  case Nil
  then show ?case by simp
next
  case (Cons t rest)
  show ?case
  proof (cases "truthy (cfg t)")
    case True
    with Cons.prems have "instanceCache w2 t = Some db"
      by (simp add: getOrCreateDbInstance_cached)
    with True show ?thesis by (simp add: getOrCreateDbInstance_again)
  next
    case False
    with Cons show ?thesis by simp
  qed
qed

lemma getDbForGameId_again:
  "getDbForGameId cfg gid w = (Inr db, w1) \<Longrightarrow> instanceCache w2 = instanceCache w1
   \<Longrightarrow> getDbForGameId cfg gid w2 = (Inr db, w2)"
  by (cases "startsWith gid ''v2:''")
     (simp_all add: getDbForGameId_def getDbInstance_again del: getDbInstance.simps)

lemma getOrCreateDbInstance_configured:
  assumes "cacheFrom cfg w" and "cfg t = Some url" and "url \<noteq> []"
  shows "fst (getOrCreateDbInstance cfg t w) = Inr (case t of Local \<Rightarrow> new_SqliteDb url | _ \<Rightarrow> new_PgDb url)"
  using assms
  by (cases t; cases "instanceCache w t")
     (auto simp: getOrCreateDbInstance_def cacheFrom_def instanceFor_def Let_def)

text \<open>
  Claim C1: from any cache the router can have produced, an id that starts with \<open>v2:\<close>
  resolves to the driver of the current networked endpoint whenever that endpoint is
  configured (truthy), whatever the legacy endpoint is; an id without the prefix resolves to
  the driver of the legacy networked endpoint whenever that one is configured, whatever the
  current one is; and when the result is the embedded-file driver, the networked endpoint
  preferred for the id is not configured.
\<close>

theorem router_selects_by_prefix:
  assumes "cacheFrom cfg w"
  shows "(startsWith gid ''v2:'' \<and> truthy (cfg Pg) \<longrightarrow>
            (\<exists>url. cfg Pg = Some url \<and> fst (getDbForGameId cfg gid w) = Inr (new_PgDb url)))
       \<and> (\<not> startsWith gid ''v2:'' \<and> truthy (cfg PgDeprecated) \<longrightarrow>
            (\<exists>url. cfg PgDeprecated = Some url
               \<and> fst (getDbForGameId cfg gid w) = Inr (new_PgDb url)))
       \<and> (\<forall>path. fst (getDbForGameId cfg gid w) = Inr (SqliteDb path) \<longrightarrow>
            cfg Local = Some path
            \<and> \<not> truthy (cfg (if startsWith gid ''v2:'' then Pg else PgDeprecated)))"
proof (intro conjI)
  show "startsWith gid ''v2:'' \<and> truthy (cfg Pg) \<longrightarrow>
      (\<exists>url. cfg Pg = Some url \<and> fst (getDbForGameId cfg gid w) = Inr (new_PgDb url))"
    using getOrCreateDbInstance_configured [OF assms, of Pg]
    by (auto simp: getDbForGameId_def truthy_Some)
next
  show "\<not> startsWith gid ''v2:'' \<and> truthy (cfg PgDeprecated) \<longrightarrow>
      (\<exists>url. cfg PgDeprecated = Some url
         \<and> fst (getDbForGameId cfg gid w) = Inr (new_PgDb url))"
    using getOrCreateDbInstance_configured [OF assms, of PgDeprecated]
    by (auto simp: getDbForGameId_def truthy_Some)
next
  show "\<forall>path. fst (getDbForGameId cfg gid w) = Inr (SqliteDb path) \<longrightarrow>
      cfg Local = Some path
      \<and> \<not> truthy (cfg (if startsWith gid ''v2:'' then Pg else PgDeprecated))"
  proof (intro allI impI)
  fix path
  assume r: "fst (getDbForGameId cfg gid w) = Inr (SqliteDb path)"
  define t where "t = (if startsWith gid ''v2:'' then Pg else PgDeprecated)"
  have t: "t = Pg \<or> t = PgDeprecated" by (simp add: t_def)
  have g: "getDbForGameId cfg gid w = getDbInstance cfg [t, Local] w"
    by (simp add: getDbForGameId_def t_def)
  have nt: "\<not> truthy (cfg t)"
  proof
    assume "truthy (cfg t)"
    then obtain url where "cfg t = Some url" "url \<noteq> []" by (auto simp: truthy_Some)
    with t r g getOrCreateDbInstance_configured [OF assms, of t url] show False
      by (auto simp: new_PgDb_def truthy_Some)
  qed
  have "cfg Local = Some path"
  proof (cases "truthy (cfg Local)")
    case True
    then obtain url where u: "cfg Local = Some url" "url \<noteq> []" by (auto simp: truthy_Some)
    with nt r g getOrCreateDbInstance_configured [OF assms, of Local url] True show ?thesis
      by (simp add: new_SqliteDb_def)
  next
    case False
    with nt r g show ?thesis by simp
  qed
  with nt show "cfg Local = Some path
      \<and> \<not> truthy (cfg (if startsWith gid ''v2:'' then Pg else PgDeprecated))"
    by (simp add: t_def)
  qed
qed

lemma cacheFrom_fresh: "cacheFrom cfg freshWorld"
  by (simp add: cacheFrom_def freshWorld_def)

text \<open>
  With all three endpoints configured and the empty cache, \<open>v2:abc\<close> goes to the current
  endpoint and \<open>abc\<close> to the legacy one.
\<close>

theorem router_selects_by_prefix_witness:
  "cacheFrom allConfigured freshWorld
   \<and> fst (getDbForGameId allConfigured ''v2:abc'' freshWorld)
       = Inr (new_PgDb ''postgres://u:p@current.example.com:5432/everdell'')
   \<and> fst (getDbForGameId allConfigured ''abc'' freshWorld)
       = Inr (new_PgDb ''postgres://u:p@legacy.example.com:5432/everdell'')"
proof -
  have h: "cacheFrom allConfigured freshWorld"
    by (simp add: cacheFrom_def freshWorld_def)
  show ?thesis
    using h router_selects_by_prefix [OF h, of "''v2:abc''"]
      router_selects_by_prefix [OF h, of "''abc''"]
    by (simp add: allConfigured_def truthy_def)
qed

text \<open>
  Claim C6, as the code has it: when neither the networked endpoint preferred for an id nor
  the embedded-file path is configured, resolving that id throws, at the call and leaving the
  state as it was; the check at module load ends the process exactly when all three
  endpoints are absent.
\<close>

theorem no_backend_fails_on_request:
  "(\<not> truthy (cfg (if startsWith gid ''v2:'' then Pg else PgDeprecated)) \<and> \<not> truthy (cfg Local)
      \<longrightarrow> getDbForGameId cfg gid w = (Inl NoBackendConfigured, w))
   \<and> (moduleInit cfg = Exited (- 1)
        \<longleftrightarrow> \<not> truthy (cfg Pg) \<and> \<not> truthy (cfg PgDeprecated) \<and> \<not> truthy (cfg Local))"
  by (simp add: getDbForGameId_def moduleInit_def)

text \<open>
  With only the legacy endpoint configured, resolving \<open>v2:abc\<close> throws.
\<close>

theorem no_backend_fails_on_request_witness:
  "\<not> truthy (onlyLegacy Pg) \<and> \<not> truthy (onlyLegacy Local)
   \<and> getDbForGameId onlyLegacy ''v2:abc'' freshWorld = (Inl NoBackendConfigured, freshWorld)"
  using no_backend_fails_on_request [of onlyLegacy "''v2:abc''" freshWorld]
  by (simp add: onlyLegacy_def truthy_def)

text \<open>
  Claim C6 as stated fails: with only the legacy endpoint configured the check at module load
  lets the process run, and the failure for a \<open>v2:\<close> id comes when that id is resolved.
\<close>

theorem startup_check_counterexample:
  "moduleInit onlyLegacy = Running
   \<and> fst (getDbForGameId onlyLegacy ''v2:abc'' freshWorld) = Inl NoBackendConfigured"
  by (simp add: moduleInit_def onlyLegacy_def truthy_def getDbForGameId_def)

section \<open>The drivers on an engine that answers\<close>

lemma filter_key_distinct:
  "distinct (map fst rows) \<Longrightarrow> k \<in> set (map fst rows)
   \<Longrightarrow> \<exists>v. filter (\<lambda>r. fst r = k) rows = [(k, v)]"
proof (induction rows)
  case Nil
  then show ?case by simp
next
  case (Cons r rows)
  show ?case
  proof (cases "fst r = k")
    case True
    with Cons.prems have "k \<notin> set (map fst rows)" by auto
    then have "filter (\<lambda>r. fst r = k) rows = []" by (auto simp: filter_empty_conv)
    with True show ?thesis by (cases r) auto
  next
    case False
    with Cons show ?thesis by auto
  qed
qed

lemma filter_key_absent:
  "k \<notin> set (map fst rows) \<Longrightarrow> filter (\<lambda>r. fst r = k) rows = []"
  by (auto simp: filter_empty_conv)

lemma filter_key_updated:
  "filter (\<lambda>r. fst r = k) (map (\<lambda>r. if fst r = k then (fst r, Some v) else r) rows)
     = map (\<lambda>r. (k, Some v)) (filter (\<lambda>r. fst r = k) rows)"
  by (induction rows) auto

lemma keys_updated:
  "map fst (map (\<lambda>r. if fst r = k then (fst r, Some v) else r) rows) = map fst rows"
  by (induction rows) auto

text \<open>No statement breaks the uniqueness of the key.\<close>

lemma exec_keeps_key_unique:
  assumes "distinct (map fst (games e))"
  shows "distinct (map fst (games (snd (exec q e))))"
  using assms
  by (cases q) (simp_all add: exec_def Let_def keys_updated del: map_map)

lemmas driver_defs =
  IDb_createGamesTableIfNotExists_def PgDb_createGamesTableIfNotExists_def
  SqliteDb_createGamesTableIfNotExists_def IDb_saveGame_def IDb_hasSavedGame_def
  IDb_getGameJSONById_def
  PgDb_saveGame_def PgDb_hasSavedGame_def PgDb_createGame_def PgDb_updateGame_def
  PgDb_getGameJSONById_def
  SqliteDb_saveGame_def SqliteDb_hasSavedGame_def SqliteDb_createGame_def SqliteDb_updateGame_def
  SqliteDb_getGameJSONById_def

lemma createTable_reachable:
  assumes "reachable e"
  shows "IDb_createGamesTableIfNotExists db e
           = (Inr (), e\<lparr>issued := issued e @ [CreateTableIfNotExists], tableExists := True\<rparr>)"
  using assms by (cases db) (simp_all add: driver_defs andThen_def exec_def resolve_def)

lemma truthy_first_key:
  "truthy (firstRowColumn (map (\<lambda>r. Some (fst r)) (filter (\<lambda>r. fst r = k) rows)))
     \<longleftrightarrow> filter (\<lambda>r. fst r = k) rows \<noteq> [] \<and> k \<noteq> []"
proof (cases "filter (\<lambda>r. fst r = k) rows")
  case Nil
  then show ?thesis by (simp add: truthy_def)
next
  case (Cons r rest)
  then have "r \<in> set (filter (\<lambda>r. fst r = k) rows)" by simp
  then have "fst r = k" by simp
  with Cons show ?thesis by (simp add: truthy_def)
qed

lemma hasSavedGame_ready:
  assumes "reachable e" and "tableExists e"
  shows "IDb_hasSavedGame db k e
           = (Inr (case db of
                     PgDb url s \<Rightarrow> length (rowsFor k e) = 1
                   | SqliteDb path \<Rightarrow> rowsFor k e \<noteq> [] \<and> k \<noteq> []),
              e\<lparr>issued := issued e @ [SelectGameId k]\<rparr>)"
  using assms
  by (cases db)
     (simp_all add: driver_defs andThen_def exec_def resolve_def rowsFor_def truthy_first_key)

lemma saveGame_ready:
  assumes "reachable e" and "tableExists e" and "fst (IDb_hasSavedGame db k e) = Inr b"
  shows "IDb_saveGame db k js e
           = (if b then
                (Inr (), e\<lparr>issued := issued e @ [SelectGameId k, UpdateGame k js],
                           games := map (\<lambda>r. if fst r = k then (fst r, Some js) else r) (games e)\<rparr>)
              else if k \<in> set (map fst (games e)) then
                (Inl DuplicateKey, e\<lparr>issued := issued e @ [SelectGameId k, InsertGame k js]\<rparr>)
              else
                (Inr (), e\<lparr>issued := issued e @ [SelectGameId k, InsertGame k js],
                           games := games e @ [(k, Some js)]\<rparr>))"
proof -
  have b: "b = (case db of
                  PgDb url s \<Rightarrow> length (rowsFor k e) = 1
                | SqliteDb path \<Rightarrow> rowsFor k e \<noteq> [] \<and> k \<noteq> [])"
    using assms by (simp add: hasSavedGame_ready)
  show ?thesis
  proof (cases db)
    case (PgDb url s)
    have "PgDb_saveGame k js e
            = (case PgDb_hasSavedGame k e of
                 (Inl err, e1) \<Rightarrow> (Inl err, e1)
               | (Inr h, e1) \<Rightarrow>
                   (if h then PgDb_updateGame k js e1 else PgDb_createGame k js e1))"
      by (simp add: PgDb_saveGame_def andThen_def split: prod.splits sum.splits)
    moreover have "PgDb_hasSavedGame k e = (Inr b, e\<lparr>issued := issued e @ [SelectGameId k]\<rparr>)"
      using hasSavedGame_ready [OF assms(1,2), of db k] PgDb b by (simp add: IDb_hasSavedGame_def)
    ultimately show ?thesis
      using assms(1,2) PgDb
      by (simp add: IDb_saveGame_def PgDb_updateGame_def PgDb_createGame_def andThen_def exec_def
          resolve_def)
  next
    case (SqliteDb path)
    have "SqliteDb_saveGame k js e
            = (case SqliteDb_hasSavedGame k e of
                 (Inl err, e1) \<Rightarrow> (Inl err, e1)
               | (Inr h, e1) \<Rightarrow>
                   (if h then SqliteDb_updateGame k js e1 else SqliteDb_createGame k js e1))"
      by (simp add: SqliteDb_saveGame_def andThen_def split: prod.splits sum.splits)
    moreover have "SqliteDb_hasSavedGame k e = (Inr b, e\<lparr>issued := issued e @ [SelectGameId k]\<rparr>)"
      using hasSavedGame_ready [OF assms(1,2), of db k] SqliteDb b
      by (simp add: IDb_hasSavedGame_def)
    ultimately show ?thesis
      using assms(1,2) SqliteDb
      by (simp add: IDb_saveGame_def SqliteDb_updateGame_def SqliteDb_createGame_def andThen_def
          exec_def resolve_def)
  qed
qed

lemma getGame_ready:
  assumes "reachable e" and "tableExists e"
  shows "fst (IDb_getGameJSONById codec db k e)
           = (case db of
                PgDb url s \<Rightarrow>
                  (case map snd (rowsFor k e) of
                     [game] \<Rightarrow> JSON_parse codec game
                   | _ \<Rightarrow> Inr None)
              | SqliteDb path \<Rightarrow>
                  if truthy (firstRowColumn (map snd (rowsFor k e)))
                  then JSON_parse codec (firstRowColumn (map snd (rowsFor k e)))
                  else Inr None)"
  using assms
  by (cases db)
     (simp_all add: driver_defs andThen_def exec_def resolve_def rowsFor_def split: list.splits)


section \<open>The exported functions\<close>

lemma engineOf_setEngine [simp]: "engineOf db (setEngine db e w) = e"
  by (simp add: engineOf_def setEngine_def)

lemma instanceCache_setEngine [simp]: "instanceCache (setEngine db e w) = instanceCache w"
  by (simp add: setEngine_def)

lemma getDbForGameId_engineOf:
  "getDbForGameId cfg gid w = (r, w1) \<Longrightarrow> engineOf db' w1 = engineOf db' w"
  using getDbForGameId_engines [of cfg gid w] by (simp add: engineOf_def)

lemma saveGameJSONById_routed:
  assumes "getDbForGameId cfg gid w = (Inr db, w1)" and "reachable (engineOf db w)"
  shows "saveGameJSONById codec cfg gid p w
           = (fst (IDb_saveGame db gid (stringify codec p) (created (engineOf db w))),
              setEngine db (snd (IDb_saveGame db gid (stringify codec p) (created (engineOf db w))))
                (setEngine db (created (engineOf db w)) w1))"
  using assms getDbForGameId_engineOf [OF assms(1), of db]
  by (simp add: saveGameJSONById_def andThen_def onEngine_def createTable_reachable created_def
      split: prod.splits)

lemma getGameJSONById_routed:
  assumes "getDbForGameId cfg gid w = (Inr db, w1)" and "reachable (engineOf db w)"
  shows "fst (getGameJSONById codec cfg gid w)
           = fst (IDb_getGameJSONById codec db gid (created (engineOf db w)))"
  using assms getDbForGameId_engineOf [OF assms(1), of db]
  by (simp add: getGameJSONById_def andThen_def onEngine_def createTable_reachable created_def
      split: prod.splits)

lemma created_simps [simp]:
  "reachable (created e) = reachable e" "tableExists (created e)" "games (created e) = games e"
  "issued (created e) = issued e @ [CreateTableIfNotExists]"
  "rowsFor k (created e) = rowsFor k e"
  by (simp_all add: created_def rowsFor_def)

lemma hasSaved_iff_member:
  assumes "distinct (map fst (games e))" and "(\<exists>path. db = SqliteDb path) \<longrightarrow> k \<noteq> []"
  shows "(case db of
            PgDb url s \<Rightarrow> length (rowsFor k e) = 1
          | SqliteDb path \<Rightarrow> rowsFor k e \<noteq> [] \<and> k \<noteq> [])
         \<longleftrightarrow> k \<in> set (map fst (games e))"
proof (cases "k \<in> set (map fst (games e))")
  case True
  with assms(1) obtain v where "rowsFor k e = [(k, v)]"
    using filter_key_distinct [of "games e" k] by (auto simp: rowsFor_def)
  with True assms(2) show ?thesis by (cases db) auto
next
  case False
  then have "rowsFor k e = []" by (simp add: rowsFor_def filter_key_absent)
  with False show ?thesis by (cases db) auto
qed

lemma saveGame_then_rows:
  assumes "reachable e" and "tableExists e" and "distinct (map fst (games e))"
      and "(\<exists>path. db = SqliteDb path) \<longrightarrow> k \<noteq> []"
  shows "fst (IDb_saveGame db k js e) = Inr ()"
    and "reachable (snd (IDb_saveGame db k js e))"
    and "tableExists (snd (IDb_saveGame db k js e))"
    and "distinct (map fst (games (snd (IDb_saveGame db k js e))))"
    and "rowsFor k (snd (IDb_saveGame db k js e)) = [(k, Some js)]"
proof -
  define b where "b = (k \<in> set (map fst (games e)))"
  have h: "fst (IDb_hasSavedGame db k e) = Inr b"
    using hasSaved_iff_member [OF assms(3,4)] assms(1,2) by (simp add: hasSavedGame_ready b_def)
  note s = saveGame_ready [OF assms(1,2) h, of js]
  show "fst (IDb_saveGame db k js e) = Inr ()" using s by (simp add: b_def)
  show "reachable (snd (IDb_saveGame db k js e))" using s assms(1) by (simp add: b_def)
  show "tableExists (snd (IDb_saveGame db k js e))" using s assms(2) by (simp add: b_def)
  show "distinct (map fst (games (snd (IDb_saveGame db k js e))))"
    using s assms(3) by (simp add: b_def keys_updated del: map_map)
  show "rowsFor k (snd (IDb_saveGame db k js e)) = [(k, Some js)]"
  proof (cases b)
    case True
    then obtain v where "filter (\<lambda>r. fst r = k) (games e) = [(k, v)]"
      using filter_key_distinct [OF assms(3), of k] by (auto simp: b_def)
    with True s show ?thesis by (simp add: rowsFor_def filter_key_updated)
  next
    case False
    then have "filter (\<lambda>r. fst r = k) (games e) = []"
      by (simp add: b_def filter_key_absent)
    with False s show ?thesis by (simp add: rowsFor_def b_def)
  qed
qed

lemma getGame_of_saved:
  assumes "reachable e" and "tableExists e" and "rowsFor k e = [(k, Some js)]"
      and "JSON_parse codec (Some js) = Inr (Some p)"
  shows "fst (IDb_getGameJSONById codec db k e) = Inr (Some p)"
proof -
  from assms(4) have "js \<noteq> []" by (auto simp: JSON_parse_def)
  with assms show ?thesis by (cases db) (simp_all add: getGame_ready truthy_def)
qed

text \<open>
  Claim C2, as the code has it. When the router resolves a driver for the session id, its
  engine answers, the table's key is unique, the payload is one that \<open>JSON.parse\<close> reads
  back from its \<open>JSON.stringify\<close> text, and the session id is not empty on the
  embedded-file driver, then \<open>saveGameJSONById\<close> returns normally and \<open>getGameJSONById\<close>
  run on the state it leaves returns the payload. This holds for both classes of driver.
\<close>

theorem save_then_get_roundtrip:
  assumes "fst (getDbForGameId cfg gid w) = Inr db"
      and "reachable (engineOf db w)"
      and "distinct (map fst (games (engineOf db w)))"
      and "JSON_parse codec (Some (stringify codec p)) = Inr (Some p)"
      and "(\<exists>path. db = SqliteDb path) \<longrightarrow> gid \<noteq> []"
  shows "fst (saveGameJSONById codec cfg gid p w) = Inr ()
       \<and> fst (getGameJSONById codec cfg gid (snd (saveGameJSONById codec cfg gid p w)))
           = Inr (Some p)"
proof -
  obtain w1 where r: "getDbForGameId cfg gid w = (Inr db, w1)"
    using assms(1) by (cases "getDbForGameId cfg gid w") simp
  define e1 where "e1 = created (engineOf db w)"
  define e2 where "e2 = snd (IDb_saveGame db gid (stringify codec p) e1)"
  define w3 where "w3 = setEngine db e2 (setEngine db e1 w1)"
  have e1: "reachable e1" "tableExists e1" "distinct (map fst (games e1))"
    using assms(2,3) by (simp_all add: e1_def)
  note sv = saveGame_then_rows [OF e1 assms(5), of "stringify codec p"]
  have save: "saveGameJSONById codec cfg gid p w = (Inr (), w3)"
    using saveGameJSONById_routed [OF r assms(2), of codec p] sv(1)
    by (simp add: e1_def e2_def w3_def)
  have "instanceCache w3 = instanceCache w1" by (simp add: w3_def)
  then have r3: "getDbForGameId cfg gid w3 = (Inr db, w3)"
    by (rule getDbForGameId_again [OF r])
  have e3: "engineOf db w3 = e2" by (simp add: w3_def)
  have "fst (getGameJSONById codec cfg gid w3)
          = fst (IDb_getGameJSONById codec db gid (created e2))"
    using getGameJSONById_routed [OF r3, of codec] sv(2) by (simp add: e3 e2_def)
  also have "\<dots> = Inr (Some p)"
    using sv(2,5) assms(4) by (intro getGame_of_saved) (simp_all add: e2_def)
  finally show ?thesis using save by simp
qed

text \<open>
  Claim C5, as the code has it. When the router resolves a driver for the session id and
  its engine answers, \<open>getGameJSONById\<close> for an id with no record returns \<open>null\<close>, for
  both classes of driver.
\<close>

theorem getGame_unknown_is_absent:
  assumes "fst (getDbForGameId cfg gid w) = Inr db"
      and "reachable (engineOf db w)"
      and "gid \<notin> set (map fst (games (engineOf db w)))"
  shows "fst (getGameJSONById codec cfg gid w) = Inr None"
proof -
  obtain w1 where r: "getDbForGameId cfg gid w = (Inr db, w1)"
    using assms(1) by (cases "getDbForGameId cfg gid w") simp
  have "rowsFor gid (engineOf db w) = []"
    using assms(3) by (simp add: rowsFor_def filter_key_absent)
  then show ?thesis
    using getGameJSONById_routed [OF r assms(2), of codec] assms(2)
    by (cases db) (simp_all add: getGame_ready truthy_def)
qed

text \<open>
  Claim C4. When the router resolves a driver and its engine answers, the statements
  \<open>saveGameJSONById\<close> adds to those issued to that engine are, in this order, the
  \<open>CREATE TABLE IF NOT EXISTS\<close> of \<open>createGamesTableIfNotExists\<close>, the \<open>SELECT\<close> of
  \<open>hasSavedGame\<close>, and then the \<open>UPDATE\<close> when \<open>hasSavedGame\<close> returned true and the
  \<open>INSERT\<close> otherwise. After an \<open>UPDATE\<close> the call returns normally. When the \<open>INSERT\<close>
  meets a record with the same key the call rejects with \<open>DuplicateKey\<close>, and the
  \<open>INSERT\<close> is the last statement issued: no \<open>UPDATE\<close> follows it.
\<close>

theorem saveGame_call_order:
  assumes "fst (getDbForGameId cfg gid w) = Inr db"
      and "reachable (engineOf db w)"
  shows "\<exists>b. fst (IDb_hasSavedGame db gid
                  (snd (IDb_createGamesTableIfNotExists db (engineOf db w)))) = Inr b
       \<and> issued (engineOf db (snd (saveGameJSONById codec cfg gid p w)))
           = issued (engineOf db w)
               @ [CreateTableIfNotExists, SelectGameId gid,
                  if b then UpdateGame gid (stringify codec p)
                  else InsertGame gid (stringify codec p)]
       \<and> (b \<longrightarrow> fst (saveGameJSONById codec cfg gid p w) = Inr ())
       \<and> (\<not> b \<and> gid \<in> set (map fst (games (engineOf db w)))
            \<longrightarrow> fst (saveGameJSONById codec cfg gid p w) = Inl DuplicateKey)"
proof -
  obtain w1 where r: "getDbForGameId cfg gid w = (Inr db, w1)"
    using assms(1) by (cases "getDbForGameId cfg gid w") simp
  define e1 where "e1 = created (engineOf db w)"
  have c: "IDb_createGamesTableIfNotExists db (engineOf db w) = (Inr (), e1)"
    using assms(2) by (simp add: createTable_reachable e1_def created_def)
  have e1: "reachable e1" "tableExists e1" using assms(2) by (simp_all add: e1_def)
  obtain b where h: "fst (IDb_hasSavedGame db gid e1) = Inr b"
    using hasSavedGame_ready [OF e1, of db gid] by simp
  note s = saveGame_ready [OF e1 h, of "stringify codec p"]
  note a = saveGameJSONById_routed [OF r assms(2), of codec p, folded e1_def]
  have "issued (engineOf db (snd (saveGameJSONById codec cfg gid p w)))
          = issued (engineOf db w)
              @ [CreateTableIfNotExists, SelectGameId gid,
                 if b then UpdateGame gid (stringify codec p)
                 else InsertGame gid (stringify codec p)]"
    using a s by (simp add: e1_def)
  moreover have "b \<longrightarrow> fst (saveGameJSONById codec cfg gid p w) = Inr ()"
    using a s by simp
  moreover have "\<not> b \<and> gid \<in> set (map fst (games (engineOf db w)))
      \<longrightarrow> fst (saveGameJSONById codec cfg gid p w) = Inl DuplicateKey"
    using a s by (simp add: e1_def)
  ultimately show ?thesis using h c by auto
qed

lemmas eval_defs =
  saveGameJSONById_def getGameJSONById_def getDbForGameId_def getOrCreateDbInstance_def
  onEngine_def engineOf_def setEngine_def andThen_def resolve_def exec_def
  IDb_createGamesTableIfNotExists_def PgDb_createGamesTableIfNotExists_def
  SqliteDb_createGamesTableIfNotExists_def IDb_saveGame_def IDb_hasSavedGame_def
  IDb_getGameJSONById_def
  PgDb_saveGame_def PgDb_hasSavedGame_def PgDb_createGame_def PgDb_updateGame_def
  PgDb_getGameJSONById_def
  SqliteDb_saveGame_def SqliteDb_hasSavedGame_def SqliteDb_createGame_def SqliteDb_updateGame_def
  SqliteDb_getGameJSONById_def
  new_SqliteDb_def truthy_def JSON_parse_def
  freshWorld_def freshEngine_def readyEngine_def emptyPayloadEngine_def boolCodec_def
  onlyLocal_def onlyLegacy_def allConfigured_def

lemma saveGame_twice_sequential:
  assumes "reachable e" and "tableExists e" and "distinct (map fst (games e))"
      and "(\<exists>path. db = SqliteDb path) \<longrightarrow> k \<noteq> []"
  shows "fst (IDb_saveGame db k js1 e) = Inr ()
       \<and> fst (IDb_saveGame db k js2 (snd (IDb_saveGame db k js1 e))) = Inr ()
       \<and> rowsFor k (snd (IDb_saveGame db k js2 (snd (IDb_saveGame db k js1 e)))) = [(k, Some js2)]"
proof -
  note a = saveGame_then_rows [OF assms, of js1]
  note b = saveGame_then_rows [OF a(2,3,4) assms(4), of js2]
  from a(1) b(1) b(5) show ?thesis by simp
qed

text \<open>
  Claim C3 at the empty session id on the embedded-file driver, on an existing empty table:
  the first \<open>saveGame\<close> inserts the record; the second finds the row, but its \<open>game_id\<close>
  is the empty string, which is falsy, so \<open>hasSavedGame\<close> answers false, the \<open>INSERT\<close>
  is tried again and rejected, and the record keeps the first payload.
\<close>

theorem sqlite_empty_id_second_save_fails:
  "fst (SqliteDb_saveGame [] ''{state:1}'' readyEngine) = Inr ()
   \<and> fst (SqliteDb_saveGame [] ''{state:2}'' (snd (SqliteDb_saveGame [] ''{state:1}'' readyEngine)))
       = Inl DuplicateKey
   \<and> games (snd (SqliteDb_saveGame [] ''{state:2}''
               (snd (SqliteDb_saveGame [] ''{state:1}'' readyEngine))))
       = [([], Some ''{state:1}'')]"
  by (simp add: eval_defs)

text \<open>
  With only the embedded-file path configured, saving \<open>true\<close> under \<open>v2:abc\<close> in the
  untouched state and reading it back gives \<open>true\<close>; with all endpoints configured the
  same id goes to the current networked endpoint, and \<open>false\<close> saved there is read back.
\<close>

theorem save_then_get_roundtrip_witness:
  "fst (getDbForGameId onlyLocal ''v2:abc'' freshWorld) = Inr (SqliteDb ''./db/game.sqlite3'')
   \<and> reachable (engineOf (SqliteDb ''./db/game.sqlite3'') freshWorld)
   \<and> distinct (map fst (games (engineOf (SqliteDb ''./db/game.sqlite3'') freshWorld)))
   \<and> JSON_parse boolCodec (Some (stringify boolCodec True)) = Inr (Some True)
   \<and> ''v2:abc'' \<noteq> []
   \<and> fst (saveGameJSONById boolCodec onlyLocal ''v2:abc'' True freshWorld) = Inr ()
   \<and> fst (getGameJSONById boolCodec onlyLocal ''v2:abc''
            (snd (saveGameJSONById boolCodec onlyLocal ''v2:abc'' True freshWorld)))
       = Inr (Some True)
   \<and> fst (getDbForGameId allConfigured ''v2:abc'' freshWorld)
       = Inr (new_PgDb ''postgres://u:p@current.example.com:5432/everdell'')
   \<and> fst (saveGameJSONById boolCodec allConfigured ''v2:abc'' False freshWorld) = Inr ()
   \<and> fst (getGameJSONById boolCodec allConfigured ''v2:abc''
            (snd (saveGameJSONById boolCodec allConfigured ''v2:abc'' False freshWorld)))
       = Inr (Some False)"
proof -
  have h1: "fst (getDbForGameId onlyLocal ''v2:abc'' freshWorld)
              = Inr (SqliteDb ''./db/game.sqlite3'')"
    by (simp add: eval_defs)
  have h2: "reachable (engineOf (SqliteDb ''./db/game.sqlite3'') freshWorld)"
    by (simp add: eval_defs)
  have h3: "distinct (map fst (games (engineOf (SqliteDb ''./db/game.sqlite3'') freshWorld)))"
    by (simp add: eval_defs)
  have h4: "JSON_parse boolCodec (Some (stringify boolCodec True)) = Inr (Some True)"
    by (simp add: eval_defs)
  have h5: "(\<exists>path. SqliteDb ''./db/game.sqlite3'' = SqliteDb path) \<longrightarrow> ''v2:abc'' \<noteq> []"
    by simp
  have g1: "fst (getDbForGameId allConfigured ''v2:abc'' freshWorld)
              = Inr (new_PgDb ''postgres://u:p@current.example.com:5432/everdell'')"
    by (simp add: eval_defs)
  have g2: "reachable (engineOf (new_PgDb ''postgres://u:p@current.example.com:5432/everdell'')
              freshWorld)"
    by (simp add: eval_defs)
  have g3: "distinct (map fst (games
              (engineOf (new_PgDb ''postgres://u:p@current.example.com:5432/everdell'')
                 freshWorld)))"
    by (simp add: eval_defs)
  have g4: "JSON_parse boolCodec (Some (stringify boolCodec False)) = Inr (Some False)"
    by (simp add: eval_defs)
  have g5: "(\<exists>path. new_PgDb ''postgres://u:p@current.example.com:5432/everdell''
              = SqliteDb path) \<longrightarrow> ''v2:abc'' \<noteq> []"
    by simp
  show ?thesis
    using h1 h2 h3 h4 h5 g1 save_then_get_roundtrip [OF h1 h2 h3 h4 h5]
      save_then_get_roundtrip [OF g1 g2 g3 g4 g5]
    by simp
qed

text \<open>
  Claim C2 as stated fails: with only the legacy endpoint configured, \<open>saveGameJSONById\<close>
  for \<open>v2:abc\<close> throws, and so does the \<open>getGameJSONById\<close> that follows it.
\<close>

theorem save_unrouted_counterexample:
  "fst (saveGameJSONById boolCodec onlyLegacy ''v2:abc'' True freshWorld) = Inl NoBackendConfigured
   \<and> fst (getGameJSONById boolCodec onlyLegacy ''v2:abc''
            (snd (saveGameJSONById boolCodec onlyLegacy ''v2:abc'' True freshWorld)))
       = Inl NoBackendConfigured"
  by (simp add: eval_defs)

text \<open>
  With only the embedded-file path configured and no record anywhere, reading \<open>v2:abc\<close>
  gives \<open>null\<close>.
\<close>

theorem getGame_unknown_is_absent_witness:
  "fst (getDbForGameId onlyLocal ''v2:abc'' freshWorld) = Inr (SqliteDb ''./db/game.sqlite3'')
   \<and> reachable (engineOf (SqliteDb ''./db/game.sqlite3'') freshWorld)
   \<and> ''v2:abc'' \<notin> set (map fst (games (engineOf (SqliteDb ''./db/game.sqlite3'') freshWorld)))
   \<and> fst (getGameJSONById boolCodec onlyLocal ''v2:abc'' freshWorld) = Inr None"
proof -
  have h1: "fst (getDbForGameId onlyLocal ''v2:abc'' freshWorld)
              = Inr (SqliteDb ''./db/game.sqlite3'')"
    by (simp add: eval_defs)
  have h2: "reachable (engineOf (SqliteDb ''./db/game.sqlite3'') freshWorld)"
    by (simp add: eval_defs)
  have h3: "''v2:abc'' \<notin> set (map fst (games (engineOf (SqliteDb ''./db/game.sqlite3'') freshWorld)))"
    by (simp add: eval_defs)
  show ?thesis
    using h1 h2 h3 getGame_unknown_is_absent [OF h1 h2 h3, of boolCodec] by simp
qed

text \<open>
  Claim C5 as stated fails: with only the legacy endpoint configured the process runs, no
  record exists, and \<open>getGameJSONById\<close> for \<open>v2:abc\<close> throws.
\<close>

theorem getGame_unrouted_counterexample:
  "moduleInit onlyLegacy = Running
   \<and> games (engines freshWorld (PgServer ''postgres://u:p@legacy.example.com:5432/everdell'')) = []
   \<and> fst (getGameJSONById boolCodec onlyLegacy ''v2:abc'' freshWorld) = Inl NoBackendConfigured"
  by (simp add: eval_defs moduleInit_def)

text \<open>
  On the embedded-file driver, after a save under the empty session id, a second save
  issues the three statements with the \<open>INSERT\<close> last and rejects with \<open>DuplicateKey\<close>.
\<close>

theorem saveGame_call_order_witness:
  "fst (getDbForGameId onlyLocal [] savedEmptyId) = Inr (SqliteDb ''./db/game.sqlite3'')
   \<and> reachable (engineOf (SqliteDb ''./db/game.sqlite3'') savedEmptyId)
   \<and> issued (engineOf (SqliteDb ''./db/game.sqlite3'')
        (snd (saveGameJSONById boolCodec onlyLocal [] False savedEmptyId)))
       = issued (engineOf (SqliteDb ''./db/game.sqlite3'') savedEmptyId)
           @ [CreateTableIfNotExists, SelectGameId [], InsertGame [] ''false'']
   \<and> fst (saveGameJSONById boolCodec onlyLocal [] False savedEmptyId) = Inl DuplicateKey"
proof -
  have h1: "fst (getDbForGameId onlyLocal [] savedEmptyId) = Inr (SqliteDb ''./db/game.sqlite3'')"
    by (simp add: savedEmptyId_def eval_defs)
  have h2: "reachable (engineOf (SqliteDb ''./db/game.sqlite3'') savedEmptyId)"
    by (simp add: savedEmptyId_def eval_defs)
  have h3: "fst (IDb_hasSavedGame (SqliteDb ''./db/game.sqlite3'') []
                  (snd (IDb_createGamesTableIfNotExists (SqliteDb ''./db/game.sqlite3'')
                         (engineOf (SqliteDb ''./db/game.sqlite3'') savedEmptyId)))) = Inr False"
    by (simp add: savedEmptyId_def eval_defs)
  have h4: "[] \<in> set (map fst (games (engineOf (SqliteDb ''./db/game.sqlite3'') savedEmptyId)))"
    by (simp add: savedEmptyId_def eval_defs)
  show ?thesis
    using h1 h2 h3 h4 saveGame_call_order [OF h1 h2, of boolCodec False]
    by (auto simp: boolCodec_def)
qed

text \<open>
  Claim C10. On an engine that answers and holds exactly one record for the key, with
  payload \<open>v\<close>: the embedded-file driver returns \<open>null\<close> when the payload is \<open>NULL\<close> or
  the empty string, although the record exists; the networked-relational driver returns
  what \<open>JSON.parse\<close> makes of the payload; and on the empty string the two differ, the
  embedded-file driver returning \<open>null\<close> and the networked-relational one rejecting with
  the \<open>SyntaxError\<close> of \<open>JSON.parse\<close>.
\<close>

theorem fetch_on_empty_payload:
  assumes "reachable e" and "tableExists e" and "rowsFor k e = [(k, v)]"
  shows "(v = None \<or> v = Some [] \<longrightarrow> fst (SqliteDb_getGameJSONById codec k e) = Inr None)
       \<and> fst (PgDb_getGameJSONById codec k e) = JSON_parse codec v
       \<and> (v = Some [] \<longrightarrow>
            fst (PgDb_getGameJSONById codec k e) = Inl SyntaxError
            \<and> fst (SqliteDb_getGameJSONById codec k e) \<noteq> fst (PgDb_getGameJSONById codec k e))"
proof -
  have s: "fst (SqliteDb_getGameJSONById codec k e)
             = (if truthy v then JSON_parse codec v else Inr None)"
    using getGame_ready [OF assms(1,2), of codec "SqliteDb []" k] assms(3)
    by (simp add: IDb_getGameJSONById_def)
  have p: "fst (PgDb_getGameJSONById codec k e) = JSON_parse codec v"
    using getGame_ready [OF assms(1,2), of codec "PgDb [] True" k] assms(3)
    by (simp add: IDb_getGameJSONById_def)
  show ?thesis using s p by (auto simp: truthy_def JSON_parse_def)
qed

text \<open>
  The table with the one record \<open>g1\<close> whose payload is the empty string.
\<close>

theorem fetch_on_empty_payload_witness:
  "reachable emptyPayloadEngine \<and> tableExists emptyPayloadEngine
   \<and> rowsFor ''g1'' emptyPayloadEngine = [(''g1'', Some [])]
   \<and> fst (SqliteDb_getGameJSONById boolCodec ''g1'' emptyPayloadEngine) = Inr None
   \<and> fst (PgDb_getGameJSONById boolCodec ''g1'' emptyPayloadEngine) = Inl SyntaxError"
proof -
  have h1: "reachable emptyPayloadEngine" by (simp add: emptyPayloadEngine_def)
  have h2: "tableExists emptyPayloadEngine" by (simp add: emptyPayloadEngine_def)
  have h3: "rowsFor ''g1'' emptyPayloadEngine = [(''g1'', Some [])]"
    by (simp add: emptyPayloadEngine_def rowsFor_def)
  show ?thesis
    using h1 h2 h3 fetch_on_empty_payload [OF h1 h2 h3, of boolCodec]
    by (simp add: JSON_parse_def)
qed

text \<open>
  The cache states described by \<open>cacheFrom\<close> are the ones the module can be in: the empty
  cache is one, and the router and the exported functions lead from one to another.
\<close>

lemma getOrCreateDbInstance_cacheFrom:
  assumes "cacheFrom cfg w"
  shows "cacheFrom cfg (snd (getOrCreateDbInstance cfg t w))"
proof (cases "instanceCache w t")
  case (Some db)
  then show ?thesis using assms by (simp add: getOrCreateDbInstance_def)
next
  case None
  show ?thesis
  proof (cases "truthy (cfg t)")
    case False
    with None assms show ?thesis
      by (cases t; cases "cfg t") (simp_all add: getOrCreateDbInstance_def truthy_def)
  next
    case True
    then obtain url where u: "cfg t = Some url" "url \<noteq> []"
      by (cases "cfg t") (simp_all add: truthy_def)
    then have "snd (getOrCreateDbInstance cfg t w)
        = w\<lparr>instanceCache := (instanceCache w)(t := instanceFor cfg t)\<rparr>"
      using None by (cases t) (simp_all add: getOrCreateDbInstance_def instanceFor_def)
    then show ?thesis using assms by (simp add: cacheFrom_def)
  qed
qed

lemma getDbInstance_cacheFrom:
  "cacheFrom cfg w \<Longrightarrow> cacheFrom cfg (snd (getDbInstance cfg order w))"
  by (induction order) (simp_all add: getOrCreateDbInstance_cacheFrom)

lemma getDbForGameId_cacheFrom:
  "cacheFrom cfg w \<Longrightarrow> cacheFrom cfg (snd (getDbForGameId cfg gid w))"
  by (simp add: getDbForGameId_def getDbInstance_cacheFrom del: getDbInstance.simps)

lemma onEngine_instanceCache: "instanceCache (snd (onEngine db m w)) = instanceCache w"
  by (simp add: onEngine_def split: prod.splits)

lemma andThen_instanceCache:
  assumes "\<And>x w1. instanceCache (snd (f x w1)) = instanceCache w1"
  shows "instanceCache (snd (andThen m f w)) = instanceCache (snd (m w))"
proof (cases "m w")
  case (Pair r w1)
  then show ?thesis using assms by (cases r) (simp_all add: andThen_def)
qed

lemma saveGameJSONById_cacheFrom:
  assumes "cacheFrom cfg w"
  shows "cacheFrom cfg (snd (saveGameJSONById codec cfg gid p w))"
proof -
  have "instanceCache (snd (saveGameJSONById codec cfg gid p w))
          = instanceCache (snd (getDbForGameId cfg gid w))"
    unfolding saveGameJSONById_def
    by (intro andThen_instanceCache) (simp add: andThen_instanceCache onEngine_instanceCache)
  then show ?thesis
    using getDbForGameId_cacheFrom [OF assms, of gid] by (simp add: cacheFrom_def)
qed

lemma getGameJSONById_cacheFrom:
  assumes "cacheFrom cfg w"
  shows "cacheFrom cfg (snd (getGameJSONById codec cfg gid w))"
proof -
  have "instanceCache (snd (getGameJSONById codec cfg gid w))
          = instanceCache (snd (getDbForGameId cfg gid w))"
    unfolding getGameJSONById_def
    by (intro andThen_instanceCache) (simp add: andThen_instanceCache onEngine_instanceCache)
  then show ?thesis
    using getDbForGameId_cacheFrom [OF assms, of gid] by (simp add: cacheFrom_def)
qed

section \<open>The synchronizer\<close>

lemma enableNotifications_keeps:
  "liveTimers (snd (enableNotifications pf s)) = liveTimers s"
  "fetches (snd (enableNotifications pf s)) = fetches s"
  "isFirstLoadRef (snd (enableNotifications pf s)) = isFirstLoadRef s"
  "notifyAttempts (snd (enableNotifications pf s)) = notifyAttempts s"
  "notificationsShown (snd (enableNotifications pf s)) = notificationsShown s"
  "raised (snd (enableNotifications pf s)) = raised s"
  by (simp_all add: enableNotifications_def checkNotificationPromise_def Let_def
      split: requestResult.splits)

lemma enableNotifications_result:
  "fst (enableNotifications pf s)
     = (if isNotificationsSupported pf \<and> requestPermission pf NoArgument \<noteq> ReturnsPromise
           \<and> requestPermission pf WithCallback = Throws
        then Inl RequestPermissionThrew else Inr ())"
  by (simp add: enableNotifications_def checkNotificationPromise_def Let_def
      split: requestResult.splits)

lemma effect_timer_only_when_waiting:
  "fst (effect pf p s) = Inr (Some t)
   \<Longrightarrow> \<not> isGameOver p \<and> Some (activePlayerId p) \<noteq> playerId p"
  by (cases "enableNotifications pf s"; cases "fst (enableNotifications pf s)")
     (auto simp: effect_def Let_def split: if_splits)

lemma effect_game_over_keeps:
  assumes "isGameOver p"
  shows "liveTimers (snd (effect pf p s)) = liveTimers s"
    and "fetches (snd (effect pf p s)) = fetches s"
  using assms enableNotifications_keeps(1,2) [of pf s]
  by (cases "enableNotifications pf s"; cases "fst (enableNotifications pf s)";
      simp add: effect_def Let_def notifyTurn_def)+

lemma runCleanup_keeps:
  "liveTimers s = [] \<Longrightarrow> liveTimers (runCleanup s) = []"
  "fetches (runCleanup s) = fetches s"
  by (simp_all add: runCleanup_def split: option.splits)

lemma step_game_over_keeps:
  assumes "liveTimers s = []" and "fetches s = 0"
      and "case ev of Render p \<Rightarrow> isGameOver p | _ \<Rightarrow> True"
  shows "liveTimers (step pf s ev) = [] \<and> fetches (step pf s ev) = 0"
proof (cases ev)
  case (Render p)
  with assms(3) have g: "isGameOver p" by simp
  have "liveTimers (snd (effect pf p (runCleanup s))) = []"
    "fetches (snd (effect pf p (runCleanup s))) = 0"
    using effect_game_over_keeps [OF g, of pf "runCleanup s"] runCleanup_keeps [of s] assms(1,2)
    by simp_all
  with Render assms(1,2) show ?thesis
    by (cases "effect pf p (runCleanup s)"; cases "fst (effect pf p (runCleanup s))")
       (auto simp: step_def)
next
  case Tick
  with assms show ?thesis by (simp add: step_def fireIntervals_def)
next
  case Unmount
  with assms runCleanup_keeps [of s] show ?thesis by (simp add: step_def)
qed

lemma foldl_game_over_keeps:
  assumes "liveTimers s = []" and "fetches s = 0"
      and "\<forall>ev \<in> set evs. case ev of Render p \<Rightarrow> isGameOver p | _ \<Rightarrow> True"
  shows "liveTimers (foldl (step pf) s evs) = [] \<and> fetches (foldl (step pf) s evs) = 0"
  using assms
proof (induction evs arbitrary: s)
  case Nil
  then show ?case by simp
next
  case (Cons ev evs)
  have "liveTimers (step pf s ev) = [] \<and> fetches (step pf s ev) = 0"
    using Cons.prems by (intro step_game_over_keeps) simp_all
  then show ?case using Cons.IH [of "step pf s ev"] Cons.prems(3) by simp
qed

text \<open>
  Claim C8. From mount on, as long as every render has \<open>isGameOver\<close> true, whatever
  \<open>activePlayerId\<close> and \<open>playerId\<close> are and whatever else happens, no interval is set and
  the component has called \<open>fetch\<close> zero times. And whenever the effect sets an interval,
  \<open>isGameOver\<close> is false and \<open>activePlayerId\<close> differs from \<open>playerId\<close>.
\<close>

theorem game_over_never_polls:
  "((\<forall>ev \<in> set evs. case ev of Render p \<Rightarrow> isGameOver p | _ \<Rightarrow> True)
      \<longrightarrow> liveTimers (run pf evs) = [] \<and> fetches (run pf evs) = 0)
   \<and> (\<forall>t. fst (effect pf p s) = Inr (Some t)
         \<longrightarrow> \<not> isGameOver p \<and> Some (activePlayerId p) \<noteq> playerId p)"
  using foldl_game_over_keeps [of initialUpdater evs pf] effect_timer_only_when_waiting [of pf p s]
  by (auto simp: run_def initialUpdater_def)

lemmas updater_eval =
  run_def step_def fireIntervals_def updateGameState_def effect_def enableNotifications_def checkNotificationPromise_def notifyTurn_def
  runCleanup_def isNotificationsSupported_def initialUpdater_def modernBrowser_def
  throwingBrowser_def waitingProps_def myTurnProps_def gameOverProps_def Let_def

text \<open>
  Mounted with the game over, re-rendered with another active player, with ten seconds gone.
\<close>

theorem game_over_never_polls_witness:
  "isGameOver gameOverProps \<and> isGameOver (gameOverProps\<lparr>activePlayerId := ''P2''\<rparr>)
   \<and> liveTimers (run modernBrowser
        [Render gameOverProps, Tick, Render (gameOverProps\<lparr>activePlayerId := ''P2''\<rparr>), Tick]) = []
   \<and> fetches (run modernBrowser
        [Render gameOverProps, Tick, Render (gameOverProps\<lparr>activePlayerId := ''P2''\<rparr>), Tick]) = 0"
proof -
  have h: "\<forall>ev \<in> set [Render gameOverProps, Tick,
      Render (gameOverProps\<lparr>activePlayerId := ''P2''\<rparr>), Tick].
      case ev of Render p \<Rightarrow> isGameOver p | _ \<Rightarrow> True"
    by (simp add: gameOverProps_def)
  show ?thesis
    using h game_over_never_polls [of "[Render gameOverProps, Tick,
      Render (gameOverProps\<lparr>activePlayerId := ''P2''\<rparr>), Tick]" modernBrowser]
    by (simp add: gameOverProps_def)
qed

text \<open>
  Claim C9, as the code has it. The component is mounted, its effect has run before, the
  dependencies change and \<open>activePlayerId\<close> is now \<open>playerId\<close>. Unless notifications are
  supported, the promise-style permission request fails and the callback-style request
  throws, the effect raises nothing and enters the \<open>try\<close> statement exactly once; a
  notification is shown when notifications are supported, the permission is granted and the
  constructor does not throw, and none is shown otherwise. The effect sets no interval.
\<close>

theorem turn_change_notifies_once:
  assumes "mounted s" and "raised s = None" and "\<not> isFirstLoadRef s"
      and "lastDeps s \<noteq> Some (isGameOver p, activePlayerId p)"
      and "playerId p = Some (activePlayerId p)"
      and "\<not> (isNotificationsSupported pf \<and> requestPermission pf NoArgument \<noteq> ReturnsPromise
             \<and> requestPermission pf WithCallback = Throws)"
  shows "raised (step pf s (Render p)) = None
       \<and> notifyAttempts (step pf s (Render p)) = notifyAttempts s + 1
       \<and> notificationsShown (step pf s (Render p))
           = notificationsShown s
               + (if isNotificationsSupported pf \<and> permission pf = Granted
                     \<and> \<not> constructorThrows pf then 1 else 0)
       \<and> cleanup (step pf s (Render p)) = Some None"
proof -
  define s0 where "s0 = runCleanup s"
  have s0: "raised s0 = None" "\<not> isFirstLoadRef s0" "notifyAttempts s0 = notifyAttempts s"
    "notificationsShown s0 = notificationsShown s"
    using assms(2,3) by (simp_all add: s0_def runCleanup_def split: option.splits)
  obtain s1 where e: "enableNotifications pf s0 = (Inr (), s1)"
    using enableNotifications_result [of pf s0] assms(6)
    by (cases "enableNotifications pf s0") auto
  have s1: "raised s1 = None" "\<not> isFirstLoadRef s1" "notifyAttempts s1 = notifyAttempts s"
    "notificationsShown s1 = notificationsShown s"
    using enableNotifications_keeps [of pf s0] e s0 by simp_all
  have "effect pf p s0 = (Inr None, (notifyTurn pf s1)\<lparr>isFirstLoadRef := False\<rparr>)"
    using e s1(2) assms(5) by (simp add: effect_def)
  then have "step pf s (Render p)
      = (notifyTurn pf s1)\<lparr>isFirstLoadRef := False, cleanup := Some None,
           lastDeps := Some (isGameOver p, activePlayerId p)\<rparr>"
    using assms(1,2,4) by (simp add: step_def s0_def)
  then show ?thesis using s1 by (simp add: notifyTurn_def Let_def)
qed

text \<open>
  The scenario of the specification: mounted with \<open>P1\<close> active and \<open>P2\<close> local, which sets an
  interval; then \<open>P2\<close> becomes active, which clears it and shows one notification.
\<close>

theorem turn_change_notifies_once_witness:
  "mounted (run modernBrowser [Render waitingProps])
   \<and> raised (run modernBrowser [Render waitingProps]) = None
   \<and> \<not> isFirstLoadRef (run modernBrowser [Render waitingProps])
   \<and> liveTimers (run modernBrowser [Render waitingProps]) = [0]
   \<and> raised (run modernBrowser [Render waitingProps, Render myTurnProps]) = None
   \<and> notifyAttempts (run modernBrowser [Render waitingProps, Render myTurnProps]) = 1
   \<and> notificationsShown (run modernBrowser [Render waitingProps, Render myTurnProps]) = 1
   \<and> liveTimers (run modernBrowser [Render waitingProps, Render myTurnProps]) = []"
proof -
  define s where "s = run modernBrowser [Render waitingProps]"
  have h1: "mounted s" by (simp add: s_def updater_eval)
  have h2: "raised s = None" by (simp add: s_def updater_eval)
  have h3: "\<not> isFirstLoadRef s" by (simp add: s_def updater_eval)
  have h4: "lastDeps s \<noteq> Some (isGameOver myTurnProps, activePlayerId myTurnProps)"
    by (simp add: s_def updater_eval)
  have h5: "playerId myTurnProps = Some (activePlayerId myTurnProps)"
    by (simp add: myTurnProps_def)
  have h6: "\<not> (isNotificationsSupported modernBrowser
      \<and> requestPermission modernBrowser NoArgument \<noteq> ReturnsPromise
      \<and> requestPermission modernBrowser WithCallback = Throws)"
    by (simp add: modernBrowser_def)
  have r: "run modernBrowser [Render waitingProps, Render myTurnProps]
      = step modernBrowser s (Render myTurnProps)"
    by (simp add: s_def run_def)
  have n: "notifyAttempts s = 0" "notificationsShown s = 0" "liveTimers s = [0]"
    by (simp_all add: s_def updater_eval)
  have t: "liveTimers (step modernBrowser s (Render myTurnProps)) = []"
    by (simp add: s_def updater_eval)
  have c: "raised (step modernBrowser s (Render myTurnProps)) = None
      \<and> notifyAttempts (step modernBrowser s (Render myTurnProps)) = 1
      \<and> notificationsShown (step modernBrowser s (Render myTurnProps)) = 1"
    using n turn_change_notifies_once [OF h1 h2 h3 h4 h5 h6]
    by (simp add: modernBrowser_def isNotificationsSupported_def)
  show ?thesis
    using h1 h2 h3 n t c by (simp add: r s_def [symmetric])
qed

text \<open>
  Claim C9 as stated fails: where \<open>Notification.requestPermission\<close> throws however it is
  called, the throw of the callback-style call leaves \<open>enableNotifications\<close> and the effect,
  at mount and at the change of turn alike, and the \<open>try\<close> statement is never entered.
\<close>

theorem permission_request_counterexample:
  "raised (run throwingBrowser [Render waitingProps]) = Some RequestPermissionThrew
   \<and> raised (step throwingBrowser (run modernBrowser [Render waitingProps]) (Render myTurnProps))
       = Some RequestPermissionThrew
   \<and> notifyAttempts
        (step throwingBrowser (run modernBrowser [Render waitingProps]) (Render myTurnProps)) = 0"
  by (simp add: updater_eval)

end
